theory Spec2Isabelle
  imports Complex_Main
begin

section \<open>NetLSD: the heat kernel trace embedding of karateclub\<close>

text \<open>
  A shallow embedding of \<^verbatim>\<open>karateclub/graph_embedding/netlsd.py\<close>. numpy's float64 arrays
  are lists of reals: rounding and overflow are not modelled. Two effects of float64 are: the
  exponential of a number far below zero is \<open>0\<close> (underflow), and the one place where the code
  can produce a nan (a division 0/0) is kept as a value of its own. Every exception the code
  can raise is a value of the type \<open>error\<close>. The eigensolver (\<^verbatim>\<open>scipy.sparse.linalg.eigsh\<close>) is a
  library outside the repository: the functions that call it take it as a parameter.
\<close>

subsection \<open>Values, errors and the estimator\<close>

datatype error =
    ValueError | IndexError | TypeError | AttributeError | NetworkXError | ArpackNoConvergence
  | NotFittedError

text \<open>
  \<open>NotFittedError\<close> stands for an explicit signal that an estimator was not fitted; no line of
  the code raises it.
\<close>

text \<open>An entry of a float64 array: a number, or the nan that 0/0 gives.\<close>

datatype float64 = Val real | NaN

text \<open>The comparison \<^verbatim>\<open>x >= y\<close> of two entries: false as soon as one of them is nan.\<close>

fun float64_ge :: "float64 \<Rightarrow> float64 \<Rightarrow> bool" where
  "float64_ge (Val a) (Val b) = (b \<le> a)"
| "float64_ge _ _ = False"

text \<open>
  The attributes \<^verbatim>\<open>__init__\<close> sets, and \<^verbatim>\<open>_embedding\<close>, which only \<^verbatim>\<open>fit\<close> sets: \<open>None\<close>
  is the object without that attribute.
\<close>

record netlsd =
  scale_min :: real
  scale_max :: real
  scale_steps :: int
  approximations :: int
  embedding :: "float64 list list option"

text \<open>
  \<^verbatim>\<open>__init__\<close> stores its four arguments and checks nothing. The result is a sum so that a
  failing construction could be told from a successful one.
\<close>

definition NetLSD_init :: "real \<Rightarrow> real \<Rightarrow> int \<Rightarrow> int \<Rightarrow> error + netlsd" where
  "NetLSD_init smin smax steps approx =
     Inr \<lparr>scale_min = smin, scale_max = smax, scale_steps = steps,
          approximations = approx, embedding = None\<rparr>"

text \<open>The defaults of \<^verbatim>\<open>__init__\<close>.\<close>

definition default_netlsd :: netlsd where
  "default_netlsd =
     \<lparr>scale_min = - 2, scale_max = 2, scale_steps = 250, approximations = 50, embedding = None\<rparr>"

subsection \<open>numpy: linspace, logspace, slices\<close>

text \<open>
  \<^verbatim>\<open>np.linspace(start, stop, num)\<close>: a negative \<open>num\<close> raises ValueError; one sample is
  \<open>start\<close>; otherwise sample \<open>i\<close> is \<open>start + i * (stop - start) / (num - 1)\<close>.
\<close>

definition np_linspace :: "real \<Rightarrow> real \<Rightarrow> int \<Rightarrow> error + real list" where
  "np_linspace start stop num =
     (if num < 0 then Inl ValueError
      else if num = 1 then Inr [start]
      else Inr (map (\<lambda>i. start + real i * ((stop - start) / real_of_int (num - 1)))
                  [0 ..< nat num]))"

text \<open>\<^verbatim>\<open>np.logspace(start, stop, num)\<close> is \<open>10\<close> to the power of each sample of the linspace.\<close>

definition np_logspace :: "real \<Rightarrow> real \<Rightarrow> int \<Rightarrow> error + real list" where
  "np_logspace start stop num =
     (case np_linspace start stop num of
        Inl e \<Rightarrow> Inl e
      | Inr ys \<Rightarrow> Inr (map (\<lambda>y. 10 powr y) ys))"

text \<open>
  A bound of a Python slice on a sequence of length \<open>n\<close>: a negative index counts from the
  end, and the result is clipped to \<open>0..n\<close>.
\<close>

definition slice_index :: "nat \<Rightarrow> int \<Rightarrow> nat" where
  "slice_index n i = (if i < 0 then nat (max 0 (int n + i)) else min n (nat i))"

text \<open>
  \<^verbatim>\<open>ret[start:stop] = vals\<close> on a one-dimensional array: the slice keeps its length, so
  \<open>vals\<close> must have that length, or length one (it is then broadcast); anything else raises
  ValueError. A missing bound is \<open>None\<close>.
\<close>

definition set_slice ::
  "real list \<Rightarrow> int option \<Rightarrow> int option \<Rightarrow> real list \<Rightarrow> error + real list" where
  "set_slice ret start stop vals =
     (let n = length ret;
          lo = (case start of None \<Rightarrow> 0 | Some i \<Rightarrow> slice_index n i);
          hi = (case stop of None \<Rightarrow> n | Some j \<Rightarrow> slice_index n j);
          len = hi - lo
      in if length vals = len then Inr (take lo ret @ vals @ drop (lo + len) ret)
         else if length vals = 1 then
           Inr (take lo ret @ replicate len (hd vals) @ drop (lo + len) ret)
         else Inl ValueError)"

subsection \<open>The heat kernel trace\<close>

text \<open>
  \<^verbatim>\<open>heat_kernel_trace / nodes\<close>, entry by entry. With no eigenvalue the sum is \<open>0\<close> and numpy
  gives nan (with a warning, not an exception).
\<close>

definition np_divide :: "real \<Rightarrow> nat \<Rightarrow> float64" where
  "np_divide x n = (if n = 0 then NaN else Val (x / real n))"

text \<open>
  \<^verbatim>\<open>np.exp\<close> on float64: below half the smallest positive float64, \<open>2 ^ - 1075\<close>, the result
  is rounded to \<open>0\<close>, which is the case for an argument below \<open>- 1075 * ln 2\<close> (about
  \<open>- 745.13\<close>).
\<close>

definition np_exp :: "real \<Rightarrow> real" where
  "np_exp x = (if x < - (1075 * ln 2) then 0 else exp x)"

text \<open>One pass of the loop and its division: the entry of the trace at time scale \<open>t\<close>.\<close>

definition trace_entry :: "real list \<Rightarrow> real \<Rightarrow> float64" where
  "trace_entry eivals t =
     np_divide (sum_list (map (\<lambda>l. np_exp (- t * l)) eivals)) (length eivals)"

definition calculate_heat_kernel_trace :: "netlsd \<Rightarrow> real list \<Rightarrow> error + float64 list" where
  "calculate_heat_kernel_trace est eivals =
     (case np_logspace (scale_min est) (scale_max est) (scale_steps est) of
        Inl e \<Rightarrow> Inl e
      | Inr timescales \<Rightarrow> Inr (map (trace_entry eivals) timescales))"

subsection \<open>The spectrum\<close>

text \<open>
  \<^verbatim>\<open>_updown_linear_approx\<close>: \<^verbatim>\<open>np.zeros(nv)\<close> raises ValueError for a negative \<open>nv\<close>;
  \<^verbatim>\<open>eigvals_lower[-1]\<close> and \<^verbatim>\<open>eigvals_upper[0]\<close> raise IndexError on an empty band.
\<close>

definition updown_linear_approx :: "real list \<Rightarrow> real list \<Rightarrow> int \<Rightarrow> error + real list" where
  "updown_linear_approx eigvals_lower eigvals_upper nv =
     (let nal = int (length eigvals_lower);
          nau = int (length eigvals_upper)
      in if nv < 0 then Inl ValueError
         else
           (case set_slice (replicate (nat nv) 0) None (Some nal) eigvals_lower of
              Inl e \<Rightarrow> Inl e
            | Inr ret1 \<Rightarrow>
                (case set_slice ret1 (Some (- nau)) None eigvals_upper of
                   Inl e \<Rightarrow> Inl e
                 | Inr ret2 \<Rightarrow>
                     (if eigvals_lower = [] \<or> eigvals_upper = [] then Inl IndexError
                      else
                        (case np_linspace (last eigvals_lower) (hd eigvals_upper)
                                (nv - nal - nau + 2) of
                           Inl e \<Rightarrow> Inl e
                         | Inr mid \<Rightarrow>
                             set_slice ret2 (Some (nal - 1)) (Some (- nau + 1)) mid)))))"

text \<open>
  A request to \<^verbatim>\<open>eigsh(mat, k, which=..., return_eigenvectors=False, mode=...)\<close> and the
  solver as the code sees it: it returns an array of eigenvalues or raises.
\<close>

datatype which = SM | LM

datatype mode = Normal | Cayley

type_synonym matrix = "real list list"

type_synonym solver = "matrix \<Rightarrow> int \<Rightarrow> which \<Rightarrow> mode \<Rightarrow> error + real list"

definition calculate_eigenvalues :: "solver \<Rightarrow> netlsd \<Rightarrow> matrix \<Rightarrow> error + real list" where
  "calculate_eigenvalues eigsh est mat =
     (let nv = int (length mat)
      in if 2 * approximations est + 2 < nv then
           (case eigsh mat (approximations est) SM Cayley of
              Inl e \<Rightarrow> Inl e
            | Inr lo \<Rightarrow>
                (case eigsh mat (approximations est) LM Cayley of
                   Inl e \<Rightarrow> Inl e
                 | Inr up_eivals \<Rightarrow> updown_linear_approx (rev lo) up_eivals nv))
         else eigsh mat (nv - 1) SM Normal)"

subsection \<open>Graphs and the normalized Laplacian\<close>

text \<open>
  A graph on the node labels \<open>0..<n\<close> (the pipeline asks for \<^verbatim>\<open>nodelist = range(n)\<close>) with
  its undirected edges, a self-loop being an edge \<open>(u, u)\<close>.
\<close>

record graph =
  number_of_nodes :: nat
  edges :: "(nat \<times> nat) list"

text \<open>
  \<^verbatim>\<open>graph.remove_edges_from(nx.selfloop_edges(graph))\<close> works on the caller's object: the
  graph it leaves behind is the result.
\<close>

definition remove_selfloop_edges :: "graph \<Rightarrow> graph" where
  "remove_selfloop_edges g = g\<lparr>edges := filter (\<lambda>e. fst e \<noteq> snd e) (edges g)\<rparr>"

definition adjacent :: "graph \<Rightarrow> nat \<Rightarrow> nat \<Rightarrow> bool" where
  "adjacent g i j = ((i, j) \<in> set (edges g) \<or> (j, i) \<in> set (edges g))"

definition degree :: "graph \<Rightarrow> nat \<Rightarrow> nat" where
  "degree g i = length (filter (adjacent g i) [0 ..< number_of_nodes g])"

text \<open>
  Modelled from the spec: \<^verbatim>\<open>nx.normalized_laplacian_matrix\<close> belongs to networkx, not to the
  repository. Entry \<open>(i, i)\<close> is \<open>1\<close> for a node of positive degree and \<open>0\<close> for an isolated
  one; entry \<open>(i, j)\<close> of an edge is \<open>- 1 / sqrt (deg i * deg j)\<close>; a graph without nodes is
  refused. The graph it is given has no self-loop left.
\<close>

definition normalized_laplacian_matrix :: "graph \<Rightarrow> error + matrix" where
  "normalized_laplacian_matrix g =
     (let n = number_of_nodes g
      in if n = 0 then Inl NetworkXError
         else Inr (map (\<lambda>i. map (\<lambda>j.
                if i = j then (if 0 < degree g i then 1 else 0)
                else if adjacent g i j then - 1 / sqrt (real (degree g i * degree g j))
                else 0) [0 ..< n]) [0 ..< n]))"

subsection \<open>The pipeline of one graph, fit and get_embedding\<close>

text \<open>
  \<^verbatim>\<open>_calculate_netlsd\<close> returns the graph as the call leaves it, also when a later step
  raises, and the embedding or the exception.
\<close>

definition calculate_netlsd :: "solver \<Rightarrow> netlsd \<Rightarrow> graph \<Rightarrow> graph \<times> (error + float64 list)" where
  "calculate_netlsd eigsh est g =
     (let g' = remove_selfloop_edges g
      in (g',
          case normalized_laplacian_matrix g' of
            Inl e \<Rightarrow> Inl e
          | Inr normalized_laplacian \<Rightarrow>
              (case calculate_eigenvalues eigsh est normalized_laplacian of
                 Inl e \<Rightarrow> Inl e
               | Inr eigen_values \<Rightarrow> calculate_heat_kernel_trace est eigen_values)))"



text \<open>
  \<^verbatim>\<open>get_embedding\<close> reads \<^verbatim>\<open>self._embedding\<close>: Python raises AttributeError when the
  attribute was never set. The matrix is the list of its rows.
\<close>

definition get_embedding :: "netlsd \<Rightarrow> error + float64 list list" where
  "get_embedding est =
     (case embedding est of None \<Rightarrow> Inl AttributeError | Some rows \<Rightarrow> Inr rows)"

subsection \<open>A solver to run examples with\<close>

text \<open>
  The eigensolver is scipy's \<^verbatim>\<open>eigsh\<close>, called with \<^verbatim>\<open>return_eigenvectors=False\<close>. This one
  answers as \<^verbatim>\<open>eigsh\<close> does, from the spectrum of the matrix (non-negative, as that of a
  normalized Laplacian is), given in ascending order: \<open>k\<close> must be positive and less than the
  size of the (sparse) matrix; \<open>SM\<close> gives the \<open>k\<close> smallest eigenvalues, the largest of them
  first, which is why the code reverses that answer for its lower band; \<open>LM\<close> gives the \<open>k\<close>
  largest, the smallest of them first. No spectrum, \<open>None\<close>, is a run that does not converge.
\<close>

definition eigsh_of :: "(matrix \<Rightarrow> real list option) \<Rightarrow> solver" where
  "eigsh_of spectrum mat k w m =
     (let n = int (length mat)
      in if k \<le> 0 then Inl ValueError
         else if n \<le> k then Inl TypeError
         else (case spectrum mat of
                 None \<Rightarrow> Inl ArpackNoConvergence
               | Some ev \<Rightarrow>
                   Inr (case w of
                          SM \<Rightarrow> rev (take (nat k) ev)
                        | LM \<Rightarrow> drop (nat (n - k)) ev)))"

text \<open>
  The complete graph on three nodes, the same with a self-loop, a single edge, and the stars
  with centre \<open>0\<close> and four or six leaves.
\<close>

definition K3 :: graph where
  "K3 = \<lparr>number_of_nodes = 3, edges = [(0, 1), (0, 2), (1, 2)]\<rparr>"

definition K3_loop :: graph where
  "K3_loop = \<lparr>number_of_nodes = 3, edges = [(0, 0), (0, 1), (0, 2), (1, 2)]\<rparr>"

definition P2 :: graph where
  "P2 = \<lparr>number_of_nodes = 2, edges = [(0, 1)]\<rparr>"

definition S5 :: graph where
  "S5 = \<lparr>number_of_nodes = 5, edges = [(0, 1), (0, 2), (0, 3), (0, 4)]\<rparr>"

definition S7 :: graph where
  "S7 = \<lparr>number_of_nodes = 7, edges = [(0, 1), (0, 2), (0, 3), (0, 4), (0, 5), (0, 6)]\<rparr>"

text \<open>
  The spectra of their normalized Laplacians, by the size of the matrix: \<open>0, 2\<close> for the
  edge, \<open>0, 3/2, 3/2\<close> for the triangle, \<open>0, 1, ..., 1, 2\<close> for a star.
\<close>

definition example_spectrum :: "matrix \<Rightarrow> real list option" where
  "example_spectrum mat =
     (if length mat = 2 then Some [0, 2]
      else if length mat = 3 then Some [0, 3 / 2, 3 / 2]
      else if length mat = 5 then Some [0, 1, 1, 1, 2]
      else Some [0, 1, 1, 1, 1, 1, 2])"

text \<open>A solver whose runs never converge.\<close>

definition no_convergence :: "matrix \<Rightarrow> real list option" where
  "no_convergence mat = None"

text \<open>The product of a matrix and a vector, to check an eigenvector.\<close>

definition mat_vec :: "matrix \<Rightarrow> real list \<Rightarrow> real list" where
  "mat_vec m v = map (\<lambda>row. sum_list (map2 (*) row v)) m"

text \<open>
  Two configurations for examples: one time scale \<open>[1]\<close> (\<open>scale_min = scale_max = 0\<close>), and
  the two time scales \<open>[1, 10]\<close>.
\<close>

definition scenario_netlsd :: netlsd where
  "scenario_netlsd =
     \<lparr>scale_min = 0, scale_max = 0, scale_steps = 1, approximations = 50, embedding = None\<rparr>"

definition two_scales_netlsd :: netlsd where
  "two_scales_netlsd =
     \<lparr>scale_min = 0, scale_max = 1, scale_steps = 2, approximations = 50, embedding = None\<rparr>"


definition S5_matrix_rows :: matrix where
  "S5_matrix_rows =
     [[1, - 1 / 2, - 1 / 2, - 1 / 2, - 1 / 2],
      [- 1 / 2, 1, 0, 0, 0],
      [- 1 / 2, 0, 1, 0, 0],
      [- 1 / 2, 0, 0, 1, 0],
      [- 1 / 2, 0, 0, 0, 1]]"

definition one_band_netlsd :: netlsd where
  "one_band_netlsd =
     \<lparr>scale_min = 0, scale_max = 0, scale_steps = 1, approximations = 1, embedding = None\<rparr>"

text \<open>
  The normalized Laplacian of the star on seven nodes, a configuration with bands of two
  eigenvalues, and one with the single time scale \<open>10 ^ 3\<close>.
\<close>

definition S7_matrix_rows :: matrix where
  "S7_matrix_rows =
     [[1, - 1 / sqrt 6, - 1 / sqrt 6, - 1 / sqrt 6, - 1 / sqrt 6, - 1 / sqrt 6, - 1 / sqrt 6],
      [- 1 / sqrt 6, 1, 0, 0, 0, 0, 0],
      [- 1 / sqrt 6, 0, 1, 0, 0, 0, 0],
      [- 1 / sqrt 6, 0, 0, 1, 0, 0, 0],
      [- 1 / sqrt 6, 0, 0, 0, 1, 0, 0],
      [- 1 / sqrt 6, 0, 0, 0, 0, 1, 0],
      [- 1 / sqrt 6, 0, 0, 0, 0, 0, 1]]"


definition large_scale_netlsd :: netlsd where
  "large_scale_netlsd =
     \<lparr>scale_min = 3, scale_max = 3, scale_steps = 1, approximations = 50, embedding = None\<rparr>"

section \<open>Properties\<close>

subsection \<open>The time scales\<close>

lemma np_linspace_length:
  assumes "np_linspace a b n = Inr ys"
  shows "0 \<le> n" and "length ys = nat n"
  using assms by (auto simp: np_linspace_def split: if_splits)

lemma np_linspace_nth:
  assumes "np_linspace a b n = Inr ys" and "i < length ys"
  shows "ys ! i = a + real i * ((b - a) / real_of_int (n - 1))"
  using assms by (auto simp: np_linspace_def split: if_splits)

lemma np_linspace_mono:
  assumes "np_linspace a b n = Inr ys" and "a \<le> b" and "i \<le> j" and "j < length ys"
  shows "ys ! i \<le> ys ! j"
proof -
  have n: "length ys = nat n" using assms(1) by (rule np_linspace_length)
  have "1 \<le> n" using n assms(4) by linarith
  hence step: "0 \<le> (b - a) / real_of_int (n - 1)" using assms(2) by simp
  have "real i * ((b - a) / real_of_int (n - 1)) \<le> real j * ((b - a) / real_of_int (n - 1))"
    using assms(3) step by (intro mult_right_mono) simp_all
  thus ?thesis using assms by (simp add: np_linspace_nth)
qed


lemma np_logspace_pos:
  assumes "np_logspace a b n = Inr ts" and "t \<in> set ts"
  shows "0 < t"
  using assms by (auto simp: np_logspace_def split: sum.splits)

lemma np_logspace_mono:
  assumes "np_logspace a b n = Inr ts" and "a \<le> b" and "i \<le> j" and "j < length ts"
  shows "ts ! i \<le> ts ! j"
proof -
  obtain ys where ys: "np_linspace a b n = Inr ys" and ts: "ts = map (\<lambda>y. 10 powr y) ys"
    using assms(1) by (auto simp: np_logspace_def split: sum.splits)
  have "ys ! i \<le> ys ! j" using ys assms(2,3,4) ts by (intro np_linspace_mono[OF ys]) simp_all
  thus ?thesis using ts assms(3,4) by (simp add: powr_mono)
qed

lemma np_logspace_le:
  assumes "np_logspace a b n = Inr ts" and "t \<in> set ts" and "a \<le> c" and "b \<le> c"
  shows "t \<le> 10 powr c"
proof -
  obtain ys where ys: "np_linspace a b n = Inr ys" and ts: "ts = map (\<lambda>y. 10 powr y) ys"
    using assms(1) by (auto simp: np_logspace_def split: sum.splits)
  obtain i where i: "i < length ys" and t: "t = 10 powr (ys ! i)"
    using assms(2) ts by (auto simp: in_set_conv_nth)
  have len: "length ys = nat n" using ys by (rule np_linspace_length)
  have "ys ! i \<le> c"
  proof (cases "n = 1")
    case True
    thus ?thesis using ys i assms(3) by (auto simp: np_linspace_def)
  next
    case False
    hence n: "2 \<le> n" using i len by linarith
    define w where "w = real i / real_of_int (n - 1)"
    have w: "0 \<le> w" "w \<le> 1" using i len n by (simp_all add: w_def)
    have "ys ! i = a + real i * ((b - a) / real_of_int (n - 1))"
      using ys i by (rule np_linspace_nth)
    also have "real i * ((b - a) / real_of_int (n - 1)) = w * (b - a)" by (simp add: w_def)
    also have "a + w * (b - a) = (1 - w) * a + w * b" by (simp add: algebra_simps)
    also have "\<dots> \<le> (1 - w) * c + w * c"
      using w assms(3,4) by (intro add_mono mult_left_mono) simp_all
    also have "\<dots> = c" by (simp add: algebra_simps)
    finally show ?thesis .
  qed
  thus ?thesis using t by (simp add: powr_mono)
qed

subsection \<open>Exponentials on float64, and their sums\<close>

lemma ln2_lower: "1 / 2 \<le> ln (2 :: real)"
proof -
  have "exp (1 / 2 :: real) ^ 2 = exp 1" by (simp add: exp_double[symmetric])
  also have "\<dots> \<le> 3" by (rule exp_le)
  finally have "exp (1 / 2 :: real) ^ 2 \<le> 2 ^ 2" by simp
  hence "exp (1 / 2 :: real) \<le> 2" by (rule power2_le_imp_le) simp
  hence "1 / 2 \<le> ln (2 :: real)" by (subst ln_ge_iff) simp_all
  thus ?thesis .
qed

lemma np_exp_exact: "- 500 \<le> x \<Longrightarrow> np_exp x = exp x"
  using ln2_lower by (simp add: np_exp_def)

lemma np_exp_underflow: "x \<le> - 1075 \<Longrightarrow> np_exp x = 0"
  using ln_2_less_1 by (simp add: np_exp_def)

lemma np_exp_nonneg: "0 \<le> np_exp x"
  by (simp add: np_exp_def)

lemma np_exp_le_one: "x \<le> 0 \<Longrightarrow> np_exp x \<le> 1"
  by (simp add: np_exp_def)

lemma np_exp_mono: "x \<le> y \<Longrightarrow> np_exp x \<le> np_exp y"
  by (simp add: np_exp_def)

lemma sum_exp_nonneg:
  fixes eivals :: "real list" and t :: real
  shows "0 \<le> sum_list (map (\<lambda>l. np_exp (- t * l)) eivals)"
  by (rule sum_list_nonneg) (auto simp: np_exp_nonneg)

lemma sum_exp_le_length:
  fixes eivals :: "real list" and t :: real
  assumes "\<And>l. l \<in> set eivals \<Longrightarrow> 0 \<le> l" and "0 \<le> t"
  shows "sum_list (map (\<lambda>l. np_exp (- t * l)) eivals) \<le> real (length eivals)"
  using assms(1)
proof (induction eivals)
  case Nil thus ?case by simp
next
  case (Cons l ls)
  have "0 \<le> t * l" using Cons.prems assms(2) by simp
  hence e: "np_exp (- t * l) \<le> 1" by (intro np_exp_le_one) simp
  have s: "sum_list (map (\<lambda>l. np_exp (- t * l)) ls) \<le> real (length ls)"
    using Cons by simp
  show ?case using add_mono[OF e s] by simp
qed

lemma sum_exp_antimono:
  fixes eivals :: "real list" and s t :: real
  assumes "\<And>l. l \<in> set eivals \<Longrightarrow> 0 \<le> l" and "s \<le> t"
  shows "sum_list (map (\<lambda>l. np_exp (- t * l)) eivals)
      \<le> sum_list (map (\<lambda>l. np_exp (- s * l)) eivals)"
proof (rule sum_list_mono)
  fix l assume "l \<in> set eivals"
  hence "0 \<le> l" by (rule assms(1))
  hence "s * l \<le> t * l" using assms(2) by (rule mult_right_mono[rotated])
  thus "np_exp (- t * l) \<le> np_exp (- s * l)" by (intro np_exp_mono) simp
qed

subsection \<open>The heat kernel trace\<close>

lemma trace_entry_val:
  "eivals \<noteq> [] \<Longrightarrow>
   trace_entry eivals t =
     Val (sum_list (map (\<lambda>l. np_exp (- t * l)) eivals) / real (length eivals))"
  by (simp add: trace_entry_def np_divide_def)

lemma trace_entry_bounds:
  fixes eivals :: "real list" and t :: real
  assumes "eivals \<noteq> []" and "\<And>l. l \<in> set eivals \<Longrightarrow> 0 \<le> l" and "0 \<le> t"
  shows "\<exists>v. trace_entry eivals t = Val v \<and> 0 \<le> v \<and> v \<le> 1"
proof -
  let ?s = "sum_list (map (\<lambda>l. np_exp (- t * l)) eivals)"
  have n: "0 < real (length eivals)" using assms(1) by simp
  have "0 \<le> ?s / real (length eivals)" using sum_exp_nonneg[of t eivals] by simp
  moreover have "?s / real (length eivals) \<le> 1"
    using sum_exp_le_length[OF assms(2,3)] n by (simp add: divide_le_eq)
  ultimately show ?thesis using assms(1) by (simp add: trace_entry_val)
qed

lemma trace_entry_antimono:
  fixes eivals :: "real list" and s t :: real
  assumes "eivals \<noteq> []" and "\<And>l. l \<in> set eivals \<Longrightarrow> 0 \<le> l" and "s \<le> t"
  shows "\<exists>a b. trace_entry eivals s = Val a \<and> trace_entry eivals t = Val b \<and> b \<le> a"
  using sum_exp_antimono[OF assms(2,3)] assms(1)
  by (simp add: trace_entry_val divide_right_mono)


lemma two_scales_trace:
  "calculate_heat_kernel_trace two_scales_netlsd eivals =
     Inr [trace_entry eivals 1, trace_entry eivals 10]"
  by (simp add: calculate_heat_kernel_trace_def two_scales_netlsd_def np_logspace_def
      np_linspace_def upt_rec)

lemma scenario_trace:
  "calculate_heat_kernel_trace scenario_netlsd eivals = Inr [trace_entry eivals 1]"
  by (simp add: calculate_heat_kernel_trace_def scenario_netlsd_def np_logspace_def
      np_linspace_def)

lemma large_scale_trace:
  "calculate_heat_kernel_trace large_scale_netlsd eivals = Inr [trace_entry eivals 1000]"
  by (simp add: calculate_heat_kernel_trace_def large_scale_netlsd_def np_logspace_def
      np_linspace_def)

lemma scenario_approximations: "approximations scenario_netlsd = 50"
  by (simp add: scenario_netlsd_def)



lemma two_scales_finite:
  "scale_min two_scales_netlsd \<le> scale_max two_scales_netlsd"
  "scale_min two_scales_netlsd \<le> 308" "scale_max two_scales_netlsd \<le> 308"
  by (simp_all add: two_scales_netlsd_def)



text \<open>
  C8, as the code has it: for a spectrum of non-negative eigenvalues with at least one entry
  the trace does not increase along the time-scale index, the grid being ascending and made
  of numbers float64 can hold (\<open>scale_min \<le> scale_max \<le> 308\<close>): for \<open>i < j\<close> both entries are
  numbers, and the entry at \<open>i\<close> is at least the entry at \<open>j\<close>.
\<close>

theorem heat_kernel_trace_non_increasing:
  assumes "eivals \<noteq> []" and "\<forall>l \<in> set eivals. 0 \<le> l"
      and "scale_min est \<le> scale_max est" and "scale_max est \<le> 308"
      and "calculate_heat_kernel_trace est eivals = Inr tr"
      and "i < j" and "j < length tr"
  shows "float64_ge (tr ! i) (tr ! j) \<and> (\<exists>a b. tr ! i = Val a \<and> tr ! j = Val b \<and> b \<le> a)"
proof -
  obtain ts where ts: "np_logspace (scale_min est) (scale_max est) (scale_steps est) = Inr ts"
      and tr: "tr = map (trace_entry eivals) ts"
    using assms(5) by (auto simp: calculate_heat_kernel_trace_def split: sum.splits)
  have j: "j < length ts" and i: "i < length ts" using assms(6,7) tr by simp_all
  have "ts ! i \<le> ts ! j" using np_logspace_mono[OF ts assms(3) _ j, of i] assms(6) by simp
  hence "\<exists>a b. trace_entry eivals (ts ! i) = Val a \<and> trace_entry eivals (ts ! j) = Val b \<and> b \<le> a"
    using assms(1,2) by (intro trace_entry_antimono) auto
  then obtain a b where "tr ! i = Val a" and "tr ! j = Val b" and "b \<le> a"
    using tr i j by auto
  thus ?thesis by simp
qed

text \<open>The spectrum \<open>[0, 3/2]\<close> on the time scales \<open>[1, 10]\<close>.\<close>

theorem heat_kernel_trace_non_increasing_witness:
  "float64_ge (trace_entry [0, 3 / 2] 1) (trace_entry [0, 3 / 2] 10)
   \<and> (\<exists>a b. trace_entry [0, 3 / 2] 1 = Val a \<and> trace_entry [0, 3 / 2] 10 = Val b \<and> b \<le> a)"
proof -
  have "float64_ge ([trace_entry [0, 3 / 2] 1, trace_entry [0, 3 / 2] 10] ! 0)
          ([trace_entry [0, 3 / 2] 1, trace_entry [0, 3 / 2] 10] ! 1)
      \<and> (\<exists>a b. [trace_entry [0, 3 / 2] 1, trace_entry [0, 3 / 2] 10] ! 0 = Val a
          \<and> [trace_entry [0, 3 / 2] 1, trace_entry [0, 3 / 2] 10] ! 1 = Val b \<and> b \<le> a)"
    by (rule heat_kernel_trace_non_increasing
          [OF _ _ two_scales_finite(1) two_scales_finite(3) two_scales_trace]) simp_all
  thus ?thesis by simp
qed

text \<open>
  Against C8 as stated, which has every spectrum of non-negative entries: the spectrum with
  no entry has no negative entry, its trace on the time scales \<open>[1, 10]\<close> is nan twice, and
  the first entry is not greater than or equal to the second.
\<close>

theorem empty_spectrum_trace_not_ordered:
  "calculate_heat_kernel_trace two_scales_netlsd [] = Inr [NaN, NaN]
   \<and> list_all (\<lambda>l. 0 \<le> l) ([] :: real list)
   \<and> \<not> float64_ge ([NaN, NaN] ! 0) ([NaN, NaN] ! 1)"
  by (simp add: two_scales_trace trace_entry_def np_divide_def)

text \<open>
  C10, as the code has it: for a non-empty spectrum of non-negative eigenvalues every entry
  of the trace is a number in the closed interval \<open>[0, 1]\<close>; the time scales of the grid are
  powers of ten, hence positive, and numbers float64 can hold for scales up to \<open>308\<close>.
\<close>

theorem heat_kernel_trace_in_unit_interval:
  assumes "eivals \<noteq> []" and "\<forall>l \<in> set eivals. 0 \<le> l"
      and "scale_min est \<le> 308" and "scale_max est \<le> 308"
      and "calculate_heat_kernel_trace est eivals = Inr tr"
  shows "\<forall>x \<in> set tr. \<exists>v. x = Val v \<and> 0 \<le> v \<and> v \<le> 1"
proof
  fix x assume x: "x \<in> set tr"
  obtain ts where ts: "np_logspace (scale_min est) (scale_max est) (scale_steps est) = Inr ts"
      and tr: "tr = map (trace_entry eivals) ts"
    using assms(5) by (auto simp: calculate_heat_kernel_trace_def split: sum.splits)
  from x tr obtain t where t: "t \<in> set ts" and xt: "x = trace_entry eivals t" by auto
  have "0 \<le> t" using np_logspace_pos[OF ts t] by simp
  thus "\<exists>v. x = Val v \<and> 0 \<le> v \<and> v \<le> 1"
    unfolding xt using assms(1,2) by (intro trace_entry_bounds) auto
qed

text \<open>The entry of the spectrum \<open>[0, 3/2]\<close> at the time scale \<open>10\<close>.\<close>

theorem heat_kernel_trace_in_unit_interval_witness:
  "\<exists>v. trace_entry [0, 3 / 2] 10 = Val v \<and> 0 \<le> v \<and> v \<le> 1"
  using heat_kernel_trace_in_unit_interval [of "[0, 3 / 2]" two_scales_netlsd
      "[trace_entry [0, 3 / 2] 1, trace_entry [0, 3 / 2] 10]"]
  by (simp add: two_scales_trace two_scales_finite)

text \<open>
  Against C10 as stated: the spectrum \<open>[2]\<close> at the single time scale \<open>10 ^ 3\<close>. The
  exponential of \<open>- 2000\<close> underflows, and the entry is \<open>0\<close>, which is not above \<open>0\<close>.
\<close>

theorem underflow_entry_is_zero:
  "calculate_heat_kernel_trace large_scale_netlsd [2] = Inr [Val 0]
   \<and> \<not> (\<exists>v. [Val 0] ! 0 = Val v \<and> 0 < v \<and> v \<le> 1)"
  by (simp add: large_scale_trace trace_entry_def np_divide_def np_exp_underflow)

subsection \<open>Construction and get_embedding\<close>

text \<open>
  C4, as the code has it: the construction never fails and checks nothing; whatever the four
  values are, it returns an estimator that holds them, with no embedding yet.
\<close>

theorem init_stores_any_configuration:
  "NetLSD_init smin smax steps approx =
     Inr \<lparr>scale_min = smin, scale_max = smax, scale_steps = steps,
          approximations = approx, embedding = None\<rparr>"
  by (simp add: NetLSD_init_def)

text \<open>
  No step, a negative number of approximations, \<open>scale_min\<close> above \<open>scale_max\<close>: each is
  constructed.
\<close>

theorem init_accepts_invalid_configuration:
  "NetLSD_init (- 2) 2 0 50 =
     Inr \<lparr>scale_min = - 2, scale_max = 2, scale_steps = 0, approximations = 50,
          embedding = None\<rparr>
   \<and> NetLSD_init (- 2) 2 250 (- 1) =
     Inr \<lparr>scale_min = - 2, scale_max = 2, scale_steps = 250, approximations = - 1,
          embedding = None\<rparr>
   \<and> NetLSD_init 2 (- 2) 250 50 =
     Inr \<lparr>scale_min = 2, scale_max = - 2, scale_steps = 250, approximations = 50,
          embedding = None\<rparr>"
  by (simp add: NetLSD_init_def)

text \<open>
  C5, as the code has it: on an estimator as the construction returns it, before any \<open>fit\<close>,
  \<open>get_embedding\<close> fails and returns no matrix; what it raises is the AttributeError of the
  attribute that is not there.
\<close>

theorem get_embedding_before_fit:
  assumes "NetLSD_init smin smax steps approx = Inr est"
  shows "get_embedding est = Inl AttributeError"
  using assms by (auto simp: NetLSD_init_def get_embedding_def)

theorem get_embedding_before_fit_witness:
  "NetLSD_init (- 2) 2 250 50 = Inr default_netlsd
   \<and> get_embedding default_netlsd = Inl AttributeError"
  using get_embedding_before_fit [of "- 2" 2 250 50 default_netlsd]
  by (simp add: NetLSD_init_def default_netlsd_def)

text \<open>
  Against C5 as stated: on the estimator of the default configuration the failure is the
  AttributeError, and no explicit signal that the estimator was not fitted.
\<close>

theorem get_embedding_signal_is_not_explicit:
  "NetLSD_init (- 2) 2 250 50 = Inr default_netlsd
   \<and> get_embedding default_netlsd = Inl AttributeError
   \<and> get_embedding default_netlsd \<noteq> Inl NotFittedError"
  by (simp add: NetLSD_init_def default_netlsd_def get_embedding_def)

subsection \<open>The example graphs\<close>

lemma K3_matrix:
  "normalized_laplacian_matrix K3 =
     Inr [[1, - 1 / 2, - 1 / 2], [- 1 / 2, 1, - 1 / 2], [- 1 / 2, - 1 / 2, 1]]"
  by (simp add: normalized_laplacian_matrix_def Let_def upt_rec degree_def adjacent_def K3_def)

lemma P2_matrix: "normalized_laplacian_matrix P2 = Inr [[1, - 1], [- 1, 1]]"
  by (simp add: normalized_laplacian_matrix_def Let_def upt_rec degree_def adjacent_def P2_def)

lemma S5_matrix:
  "normalized_laplacian_matrix S5 =
     Inr [[1, - 1 / 2, - 1 / 2, - 1 / 2, - 1 / 2],
          [- 1 / 2, 1, 0, 0, 0],
          [- 1 / 2, 0, 1, 0, 0],
          [- 1 / 2, 0, 0, 1, 0],
          [- 1 / 2, 0, 0, 0, 1]]"
  by (simp add: normalized_laplacian_matrix_def Let_def upt_rec degree_def adjacent_def S5_def)

text \<open>
  The numbers of \<open>example_spectrum\<close> are eigenvalues of these matrices: an eigenvector for
  each.
\<close>

lemma K3_eigenvectors:
  assumes "normalized_laplacian_matrix K3 = Inr m"
  shows "mat_vec m [1, 1, 1] = map ((*) 0) [1, 1, 1]"
    and "mat_vec m [1, - 1, 0] = map ((*) (3 / 2)) [1, - 1, 0]"
    and "mat_vec m [1, 1, - 2] = map ((*) (3 / 2)) [1, 1, - 2]"
  using assms by (auto simp: K3_matrix mat_vec_def)

lemma P2_eigenvectors:
  assumes "normalized_laplacian_matrix P2 = Inr m"
  shows "mat_vec m [1, 1] = map ((*) 0) [1, 1]"
    and "mat_vec m [1, - 1] = map ((*) 2) [1, - 1]"
  using assms by (auto simp: P2_matrix mat_vec_def)

lemma S5_eigenvectors:
  assumes "normalized_laplacian_matrix S5 = Inr m"
  shows "mat_vec m [2, 1, 1, 1, 1] = map ((*) 0) [2, 1, 1, 1, 1]"
    and "mat_vec m [0, 1, - 1, 0, 0] = map ((*) 1) [0, 1, - 1, 0, 0]"
    and "mat_vec m [0, 1, 1, - 2, 0] = map ((*) 1) [0, 1, 1, - 2, 0]"
    and "mat_vec m [0, 1, 1, 1, - 3] = map ((*) 1) [0, 1, 1, 1, - 3]"
    and "mat_vec m [2, - 1, - 1, - 1, - 1] = map ((*) 2) [2, - 1, - 1, - 1, - 1]"
  using assms by (auto simp: S5_matrix mat_vec_def)

lemma laplacian_length:
  "normalized_laplacian_matrix g = Inr m \<Longrightarrow> length m = number_of_nodes g"
  by (auto simp: normalized_laplacian_matrix_def Let_def split: if_splits)

lemma K3_loop_removed: "remove_selfloop_edges K3_loop = K3"
  by (simp add: remove_selfloop_edges_def K3_loop_def K3_def)

lemma K3_removed: "remove_selfloop_edges K3 = K3"
  by (simp add: remove_selfloop_edges_def K3_def)


lemma S5_removed: "remove_selfloop_edges S5 = S5"
  by (simp add: remove_selfloop_edges_def S5_def)

text \<open>The exact branch on a matrix of two or three rows, with the example solver.\<close>

lemma example_exact:
  assumes "normalized_laplacian_matrix g = Inr m" and "number_of_nodes g = n"
      and "2 \<le> n" and "int n \<le> 2 * approximations est + 2"
      and "example_spectrum m = Some ev"
  shows "calculate_eigenvalues (eigsh_of example_spectrum) est m = Inr (rev (take (n - 1) ev))"
  using assms laplacian_length[OF assms(1)]
  by (simp add: calculate_eigenvalues_def eigsh_of_def Let_def nat_diff_distrib')

lemma K3_eigenvalues:
  assumes "3 \<le> 2 * approximations est + 2"
  shows "\<exists>m. normalized_laplacian_matrix K3 = Inr m \<and>
     calculate_eigenvalues (eigsh_of example_spectrum) est m = Inr [3 / 2, 0]"
proof -
  obtain m where m: "normalized_laplacian_matrix K3 = Inr m" and l: "length m = 3"
    by (simp add: K3_matrix)
  have ev: "example_spectrum m = Some [0, 3 / 2, 3 / 2]"
    using l by (simp add: example_spectrum_def)
  have "calculate_eigenvalues (eigsh_of example_spectrum) est m =
      Inr (rev (take (3 - 1) [0, 3 / 2, 3 / 2]))"
    using assms by (intro example_exact[OF m _ _ _ ev]) (simp_all add: K3_def)
  thus ?thesis using m by simp
qed


lemma K3_pipeline:
  assumes "3 \<le> 2 * approximations est + 2"
  shows "calculate_netlsd (eigsh_of example_spectrum) est K3 =
     (K3, calculate_heat_kernel_trace est [3 / 2, 0])"
  using K3_eigenvalues[OF assms] by (auto simp: calculate_netlsd_def K3_removed)

lemma K3_loop_pipeline:
  assumes "3 \<le> 2 * approximations est + 2"
  shows "calculate_netlsd (eigsh_of example_spectrum) est K3_loop =
     (K3, calculate_heat_kernel_trace est [3 / 2, 0])"
  using K3_eigenvalues[OF assms] by (auto simp: calculate_netlsd_def K3_loop_removed)


lemma trace_entry_K3: "trace_entry [3 / 2, 0] 1 = Val ((1 + exp (- (3 / 2))) / 2)"
  by (simp add: trace_entry_def np_divide_def np_exp_exact)


lemma K3_loop_scenario:
  "calculate_netlsd (eigsh_of example_spectrum) scenario_netlsd K3_loop =
     (K3, Inr [Val ((1 + exp (- (3 / 2))) / 2)])"
  by (simp add: K3_loop_pipeline scenario_approximations scenario_trace trace_entry_K3)



text \<open>
  C2: on the complete graph on three nodes, with one time scale \<open>1\<close> and 50 approximations,
  the code asks the solver for two eigenvalues and returns \<open>(1 + exp (- 3/2)) / 2\<close>, which is
  not the \<open>(exp 0 + exp (- 3/2) + exp (- 3/2)) / 3\<close> of the claim.
\<close>

theorem K3_scenario_value:
  "calculate_netlsd (eigsh_of example_spectrum) scenario_netlsd K3 =
     (K3, Inr [Val ((1 + exp (- (3 / 2))) / 2)])
   \<and> (1 + exp (- (3 / 2))) / 2 \<noteq> (exp 0 + exp (- (3 / 2)) + exp (- (3 / 2 :: real))) / 3"
proof -
  have "exp (- (3 / 2 :: real)) \<noteq> 1" by simp
  hence "(1 + exp (- (3 / 2))) / 2 \<noteq> (exp 0 + exp (- (3 / 2)) + exp (- (3 / 2 :: real))) / 3"
    by (simp add: field_simps)
  thus ?thesis
    by (simp add: K3_pipeline scenario_approximations scenario_trace trace_entry_K3)
qed

subsection \<open>The caller's graph\<close>

text \<open>
  C3, as the code has it: the pipeline of one graph removes the self-loops from the caller's
  graph, in place, and changes nothing else of it, whatever the solver answers; a graph
  without self-loops is left as it was.
\<close>

theorem calculate_netlsd_removes_selfloops:
  "fst (calculate_netlsd eigsh est g) = g\<lparr>edges := filter (\<lambda>e. fst e \<noteq> snd e) (edges g)\<rparr>"
  by (simp add: calculate_netlsd_def Let_def remove_selfloop_edges_def)

text \<open>
  The triangle with a self-loop at node \<open>0\<close>: the embedding is computed, and the edge set of
  the graph is not the one it was.
\<close>

theorem selfloop_graph_is_mutated:
  "set (edges (fst (calculate_netlsd (eigsh_of example_spectrum) scenario_netlsd K3_loop)))
     \<noteq> set (edges K3_loop)
   \<and> snd (calculate_netlsd (eigsh_of example_spectrum) scenario_netlsd K3_loop)
     = Inr [Val ((1 + exp (- (3 / 2))) / 2)]"
proof -
  have "(0, 0) \<in> set (edges K3_loop)" and "(0, 0) \<notin> set (edges K3)"
    by (simp_all add: K3_def K3_loop_def)
  hence "set (edges K3) \<noteq> set (edges K3_loop)" by blast
  thus ?thesis by (simp add: K3_loop_scenario)
qed

subsection \<open>The shape of the embedding\<close>







subsection \<open>Slices and the interpolation of the two bands\<close>

lemma set_slice_fits:
  assumes "(case start of None \<Rightarrow> 0 | Some i \<Rightarrow> slice_index (length ret) i) = lo"
      and "(case stop of None \<Rightarrow> length ret | Some j \<Rightarrow> slice_index (length ret) j) = hi"
      and "length vals = hi - lo"
  shows "set_slice ret start stop vals = Inr (take lo ret @ vals @ drop (lo + (hi - lo)) ret)"
  using assms by (simp add: set_slice_def Let_def)

lemma set_slice_length:
  assumes "set_slice ret start stop vals = Inr r"
  shows "length r = length ret"
proof -
  define lo where "lo = (case start of None \<Rightarrow> 0 | Some i \<Rightarrow> slice_index (length ret) i)"
  define hi where "hi = (case stop of None \<Rightarrow> length ret | Some j \<Rightarrow> slice_index (length ret) j)"
  have lo: "lo \<le> length ret" by (auto simp: lo_def slice_index_def split: option.splits)
  have hi: "hi \<le> length ret" by (auto simp: hi_def slice_index_def split: option.splits)
  have "r = take lo ret @ vals @ drop (lo + (hi - lo)) ret \<and> length vals = hi - lo
      \<or> r = take lo ret @ replicate (hi - lo) (hd vals) @ drop (lo + (hi - lo)) ret"
    using assms by (auto simp: set_slice_def Let_def lo_def hi_def split: if_splits)
  thus ?thesis using lo hi by auto
qed

lemma updown_linear_approx_length:
  assumes "updown_linear_approx lo up nv = Inr r"
  shows "length r = nat nv"
  using assms
  by (auto simp: updown_linear_approx_def Let_def split: if_splits sum.splits
      dest!: set_slice_length)

lemma updown_step1:
  assumes "length lo = k" and "k \<le> n"
  shows "set_slice (replicate n 0) None (Some (int k)) lo = Inr (lo @ replicate (n - k) 0)"
proof -
  have "set_slice (replicate n 0) None (Some (int k)) lo =
      Inr (take 0 (replicate n 0) @ lo @ drop (0 + (k - 0)) (replicate n 0))"
    using assms by (intro set_slice_fits) (simp_all add: slice_index_def)
  thus ?thesis by simp
qed

lemma updown_step2:
  assumes "length lo = k" and "length up = k" and "1 \<le> k" and "2 * k \<le> n"
  shows "set_slice (lo @ replicate (n - k) 0) (Some (- int k)) None up =
     Inr (lo @ replicate (n - 2 * k) 0 @ up)"
proof -
  let ?ret = "lo @ replicate (n - k) 0"
  have len: "length ?ret = n" using assms by simp
  have a: "(case Some (- int k) of None \<Rightarrow> 0 | Some i \<Rightarrow> slice_index (length ?ret) i) = n - k"
    unfolding len using assms by (simp add: slice_index_def)
  have b: "(case None of None \<Rightarrow> length ?ret | Some j \<Rightarrow> slice_index (length ?ret) j) = n"
    unfolding len by simp
  have c: "length up = n - (n - k)" using assms by simp
  have "set_slice ?ret (Some (- int k)) None up =
      Inr (take (n - k) ?ret @ up @ drop ((n - k) + (n - (n - k))) ?ret)"
    by (rule set_slice_fits[OF a b c])
  moreover have "n - k - k = n - 2 * k" by simp
  ultimately show ?thesis using assms by simp
qed


lemma np_linspace_many:
  assumes "2 \<le> m"
  shows "np_linspace a b (int m) =
     Inr (map (\<lambda>i. a + real i * ((b - a) / real (m - 1))) [0 ..< m])"
proof -
  have "real_of_int (int m - 1) = real (m - 1)" using assms by simp
  thus ?thesis using assms by (simp add: np_linspace_def)
qed






lemma band_of_one_raises:
  assumes "4 < n"
  shows "updown_linear_approx [a] [b] (int n) = Inl ValueError"
proof -
  have s1: "set_slice (replicate n 0) None (Some 1) [a] = Inr (a # replicate (n - 1) 0)"
    using updown_step1[of "[a]" 1 n] assms by simp
  have s2: "set_slice (a # replicate (n - 1) 0) (Some (- 1)) None [b] =
      Inr (a # replicate (n - 2) 0 @ [b])"
    using updown_step2[of "[a]" 1 "[b]" n] assms by simp
  have lin: "np_linspace a b (int n) =
      Inr (map (\<lambda>i. a + real i * ((b - a) / real (n - 1))) [0 ..< n])"
    using np_linspace_many[of n a b] assms by simp
  have s3: "set_slice (a # replicate (n - 2) 0 @ [b]) (Some 0) (Some 0)
      (map (\<lambda>i. a + real i * ((b - a) / real (n - 1))) [0 ..< n]) = Inl ValueError"
    using assms by (simp add: set_slice_def slice_index_def Let_def)
  show ?thesis
    unfolding updown_linear_approx_def Let_def using s1 s2 lin s3 assms by simp
qed

subsection \<open>The two branches of the spectrum\<close>


lemma S5_rows_length: "length S5_matrix_rows = 5"
  by (simp add: S5_matrix_rows_def)


lemma one_band_approximations: "approximations one_band_netlsd = 1"
  by (simp add: one_band_netlsd_def)


lemma S7_matrix: "normalized_laplacian_matrix S7 = Inr S7_matrix_rows"
  by (simp add: normalized_laplacian_matrix_def Let_def upt_rec degree_def adjacent_def S7_def
      S7_matrix_rows_def)





lemma S5_rows_spectrum: "example_spectrum S5_matrix_rows = Some [0, 1, 1, 1, 2]"
  by (simp add: example_spectrum_def S5_rows_length)


lemma S7_eigenvectors:
  "mat_vec S7_matrix_rows [sqrt 6, 1, 1, 1, 1, 1, 1] = map ((*) 0) [sqrt 6, 1, 1, 1, 1, 1, 1]"
  "mat_vec S7_matrix_rows [0, 1, - 1, 0, 0, 0, 0] = map ((*) 1) [0, 1, - 1, 0, 0, 0, 0]"
  "mat_vec S7_matrix_rows [0, 1, 1, - 2, 0, 0, 0] = map ((*) 1) [0, 1, 1, - 2, 0, 0, 0]"
  "mat_vec S7_matrix_rows [0, 1, 1, 1, - 3, 0, 0] = map ((*) 1) [0, 1, 1, 1, - 3, 0, 0]"
  "mat_vec S7_matrix_rows [0, 1, 1, 1, 1, - 4, 0] = map ((*) 1) [0, 1, 1, 1, 1, - 4, 0]"
  "mat_vec S7_matrix_rows [0, 1, 1, 1, 1, 1, - 5] = map ((*) 1) [0, 1, 1, 1, 1, 1, - 5]"
  "mat_vec S7_matrix_rows [sqrt 6, - 1, - 1, - 1, - 1, - 1, - 1]
     = map ((*) 2) [sqrt 6, - 1, - 1, - 1, - 1, - 1, - 1]"
proof -
  have "sqrt 6 * sqrt 6 = (6 :: real)" by simp
  hence s: "6 / sqrt 6 = sqrt 6" by (simp add: field_simps)
  show "mat_vec S7_matrix_rows [sqrt 6, 1, 1, 1, 1, 1, 1] = map ((*) 0) [sqrt 6, 1, 1, 1, 1, 1, 1]"
    and "mat_vec S7_matrix_rows [0, 1, - 1, 0, 0, 0, 0] = map ((*) 1) [0, 1, - 1, 0, 0, 0, 0]"
    and "mat_vec S7_matrix_rows [0, 1, 1, - 2, 0, 0, 0] = map ((*) 1) [0, 1, 1, - 2, 0, 0, 0]"
    and "mat_vec S7_matrix_rows [0, 1, 1, 1, - 3, 0, 0] = map ((*) 1) [0, 1, 1, 1, - 3, 0, 0]"
    and "mat_vec S7_matrix_rows [0, 1, 1, 1, 1, - 4, 0] = map ((*) 1) [0, 1, 1, 1, 1, - 4, 0]"
    and "mat_vec S7_matrix_rows [0, 1, 1, 1, 1, 1, - 5] = map ((*) 1) [0, 1, 1, 1, 1, 1, - 5]"
    and "mat_vec S7_matrix_rows [sqrt 6, - 1, - 1, - 1, - 1, - 1, - 1]
       = map ((*) 2) [sqrt 6, - 1, - 1, - 1, - 1, - 1, - 1]"
    using s by (simp_all add: S7_matrix_rows_def mat_vec_def)
qed



text \<open>A run of the solver that does not converge ends the pipeline of the graph.\<close>

lemma no_convergence_pipeline:
  "calculate_netlsd (eigsh_of no_convergence) scenario_netlsd K3 = (K3, Inl ArpackNoConvergence)"
  by (simp add: calculate_netlsd_def K3_removed K3_matrix calculate_eigenvalues_def
      eigsh_of_def no_convergence_def scenario_approximations)

lemma S5_one_band:
  "calculate_netlsd (eigsh_of example_spectrum) one_band_netlsd S5 = (S5, Inl ValueError)"
proof -
  have m: "normalized_laplacian_matrix S5 = Inr S5_matrix_rows"
    by (simp add: S5_matrix S5_matrix_rows_def)
  have "calculate_eigenvalues (eigsh_of example_spectrum) one_band_netlsd S5_matrix_rows
      = updown_linear_approx (rev [0]) [2] (int 5)"
    by (simp add: calculate_eigenvalues_def S5_rows_length one_band_approximations eigsh_of_def
        S5_rows_spectrum)
  also have "\<dots> = Inl ValueError" using band_of_one_raises[of 5 0 2] by simp
  finally show ?thesis by (simp add: calculate_netlsd_def S5_removed m)
qed

text \<open>
  C7: with bands of one eigenvalue the last slice, \<^verbatim>\<open>ret[nal-1:-nau+1]\<close>, is \<^verbatim>\<open>ret[0:0]\<close>, an
  empty one, and the assignment of the interpolated values to it raises ValueError: no array
  is returned for the bands \<open>[0]\<close> and \<open>[2]\<close> and \<open>n = 5\<close>, which is the star on five nodes
  with one approximation.
\<close>

theorem band_of_length_one_raises:
  "updown_linear_approx [0] [2] 5 = Inl ValueError
   \<and> calculate_netlsd (eigsh_of example_spectrum) one_band_netlsd S5 = (S5, Inl ValueError)"
  using band_of_one_raises[of 5 0 2] by (simp add: S5_one_band)


end
